theory Spec2Isabelle
  imports Complex_Main "HOL-Library.List_Lexorder" "HOL-Library.Char_ord"
begin

section \<open>Three-wheeler shop: inventory, sales, report, backup (src/app.js)\<close>

text \<open>
  The application keeps two collections in the browser's \<^verbatim>\<open>localStorage\<close>, each as the
  JSON text of an array: \<^verbatim>\<open>threeWheel_items\<close> (wheels, the spec's vehicles) and
  \<^verbatim>\<open>threeWheel_sales\<close> (sales); a third key, \<^verbatim>\<open>threeWheel_currentSale\<close>, holds the sale
  handed to the bill. Every handler reads the collections with \<^verbatim>\<open>loadWheels()\<close> and
  \<^verbatim>\<open>loadSales()\<close> and writes them back whole with \<^verbatim>\<open>saveWheels\<close> and \<^verbatim>\<open>saveSales\<close>.

  The model follows that structure. The storage is a record of the three keys; a handler
  takes the storage (and what it reads from the page or from the user) and returns the
  storage it leaves behind, the dialogs it showed, and whether it ended by an uncaught
  exception.
\<close>

subsection \<open>Records of the two collections\<close>

text \<open>
  The fields are those of the storage comment at the head of src/app.js (lines 3-11).
  The wheel's and the sale's \<^verbatim>\<open>id\<close> are named \<open>wheel_id\<close> and \<open>sale_id\<close>, the
  wheel's \<^verbatim>\<open>notes\<close> is \<open>wheel_notes\<close> (\<open>id\<close> and \<open>notes\<close> are taken in Isabelle). Prices are
  JavaScript numbers; they are modelled as real numbers, so sums and differences are
  exact and no rounding of the floating point is followed.
\<close>

record wheel =
  wheel_id :: string
  model :: string
  year :: int
  vehicleNumber :: string
  color :: string
  chassisNumber :: string
  engineNumber :: string
  wheel_notes :: string
  purchasePrice :: real
  addedDate :: string

record sale =
  sale_id :: string
  wheelId :: string
  saleDate :: string
  sellingPrice :: real
  paymentMethod :: string
  buyerName :: string
  buyerAddress :: string
  buyerNIC :: string
  buyerPhone :: string
  saleNotes :: string

subsection \<open>JSON values and JSON text\<close>

text \<open>
  What \<^verbatim>\<open>JSON.parse\<close> returns for a collection is either an array or some other JSON value.
  The handlers never look inside a value that is not an array (they call array methods on
  it, or test \<^verbatim>\<open>Array.isArray\<close>), so such a value is kept by its JavaScript type only.
  The element type of an array is a parameter: the storage and backup functions never
  inspect an element, and the handlers of the inventory use them at wheels and sales.
\<close>

datatype other = Null | Boolean bool | Number real | String string | Object

datatype 'a jsvalue = Array "'a list" | NotArray other

text \<open>
  A string handed to \<^verbatim>\<open>JSON.parse\<close> is the empty string, a non-empty string that is not
  JSON (for example \<^verbatim>\<open>{\<close>), or the JSON text of a value. \<^verbatim>\<open>JSON.stringify\<close> produces the
  text of a value, and parsing that text gives the value back.
\<close>

datatype 'a json_text = Empty | Malformed | Doc 'a

datatype error = SyntaxError | TypeError

fun JSON_parse :: "'a json_text \<Rightarrow> error + 'a" where
  "JSON_parse Empty = Inl SyntaxError"
| "JSON_parse Malformed = Inl SyntaxError"
| "JSON_parse (Doc v) = Inr v"

definition JSON_stringify :: "'a \<Rightarrow> 'a json_text" where
  "JSON_stringify v = Doc v"

text \<open>Truthiness of a string (only the empty string is falsy) and of a parsed value.\<close>

fun truthy_text :: "'a json_text \<Rightarrow> bool" where
  "truthy_text Empty = False"
| "truthy_text Malformed = True"
| "truthy_text (Doc v) = True"

fun truthy_other :: "other \<Rightarrow> bool" where
  "truthy_other Null = False"
| "truthy_other (Boolean b) = b"
| "truthy_other (Number n) = (n \<noteq> 0)"
| "truthy_other (String s) = (s \<noteq> [])"
| "truthy_other Object = True"

fun truthy :: "'a jsvalue \<Rightarrow> bool" where
  "truthy (Array xs) = True"
| "truthy (NotArray v) = truthy_other v"

fun Array_isArray :: "'a jsvalue \<Rightarrow> bool" where
  "Array_isArray (Array xs) = True"
| "Array_isArray (NotArray v) = False"

subsection \<open>Storage functions (src/app.js lines 19-47)\<close>

text \<open>\<open>None\<close> is a key that is not set: \<^verbatim>\<open>getItem\<close> returns \<^verbatim>\<open>null\<close>.\<close>

record ('w, 's) localStorage =
  threeWheel_items :: "'w jsvalue json_text option"
  threeWheel_sales :: "'s jsvalue json_text option"
  threeWheel_currentSale :: "'s json_text option"

text \<open>
  \<^verbatim>\<open>const data = localStorage.getItem('threeWheel_items');
  return data ? JSON.parse(data) : [];\<close>
  There is no \<^verbatim>\<open>try\<close> around the call: an exception of \<^verbatim>\<open>JSON.parse\<close> leaves the function.
\<close>

definition loadWheels :: "('w, 's) localStorage \<Rightarrow> error + 'w jsvalue" where
  "loadWheels st =
     (case threeWheel_items st of
        None \<Rightarrow> Inr (Array [])
      | Some data \<Rightarrow> if truthy_text data then JSON_parse data else Inr (Array []))"

definition saveWheels :: "'w list \<Rightarrow> ('w, 's) localStorage \<Rightarrow> ('w, 's) localStorage" where
  "saveWheels wheels st = st\<lparr>threeWheel_items := Some (JSON_stringify (Array wheels))\<rparr>"

definition loadSales :: "('w, 's) localStorage \<Rightarrow> error + 's jsvalue" where
  "loadSales st =
     (case threeWheel_sales st of
        None \<Rightarrow> Inr (Array [])
      | Some data \<Rightarrow> if truthy_text data then JSON_parse data else Inr (Array []))"

definition saveSales :: "'s list \<Rightarrow> ('w, 's) localStorage \<Rightarrow> ('w, 's) localStorage" where
  "saveSales sales st = st\<lparr>threeWheel_sales := Some (JSON_stringify (Array sales))\<rparr>"

text \<open>The storage with no key set.\<close>

definition no_data :: "('w, 's) localStorage" where
  "no_data =
     \<lparr>threeWheel_items = None, threeWheel_sales = None, threeWheel_currentSale = None\<rparr>"

text \<open>
  \<^verbatim>\<open>seedDemoData()\<close>, lines 70-151. \<open>now\<close> is the text of \<^verbatim>\<open>Date.now()\<close>, taken to be the
  same at each of its six calls.
\<close>

definition seedDemoData :: "string \<Rightarrow> (wheel, sale) localStorage \<Rightarrow> (wheel, sale) localStorage" where
  "seedDemoData now st =
     (let wheels =
        [\<lparr>wheel_id = ''wheel_'' @ now @ ''_1'', model = ''Bajaj Auto Rickshaw'', year = 2022,
          vehicleNumber = ''ABC-1234'', color = ''Red'', chassisNumber = ''CH123456789'',
          engineNumber = ''EN987654321'', wheel_notes = ''Good condition, low mileage'',
          purchasePrice = 85000, addedDate = ''2024-01-15''\<rparr>,
         \<lparr>wheel_id = ''wheel_'' @ now @ ''_2'', model = ''Mahindra Alfa'', year = 2023,
          vehicleNumber = ''XYZ-5678'', color = ''Blue'', chassisNumber = ''CH987654321'',
          engineNumber = ''EN123456789'', wheel_notes = ''New model, excellent condition'',
          purchasePrice = 92000, addedDate = ''2024-02-10''\<rparr>,
         \<lparr>wheel_id = ''wheel_'' @ now @ ''_3'', model = ''Piaggio Ape'', year = 2021,
          vehicleNumber = ''DEF-9012'', color = ''White'', chassisNumber = ''CH456789123'',
          engineNumber = ''EN789123456'', wheel_notes = ''Used, needs minor repairs'',
          purchasePrice = 75000, addedDate = ''2024-03-05''\<rparr>,
         \<lparr>wheel_id = ''wheel_'' @ now @ ''_4'', model = ''TVS King'', year = 2023,
          vehicleNumber = ''GHI-3456'', color = ''Black'', chassisNumber = ''CH789123456'',
          engineNumber = ''EN456789123'', wheel_notes = ''Brand new, showroom condition'',
          purchasePrice = 98000, addedDate = ''2024-03-20''\<rparr>];
        sales =
        [\<lparr>sale_id = ''sale_'' @ now @ ''_1'', wheelId = wheel_id (wheels ! 0),
          saleDate = ''2024-02-01'', sellingPrice = 95000, paymentMethod = ''Ready Cash'',
          buyerName = ''Ahmed Khan'', buyerAddress = ''123 Main Street, Karachi'',
          buyerNIC = ''42101-1234567-1'', buyerPhone = ''0300-1234567'',
          saleNotes = ''Sold to regular customer''\<rparr>,
         \<lparr>sale_id = ''sale_'' @ now @ ''_2'', wheelId = wheel_id (wheels ! 1),
          saleDate = ''2024-03-15'', sellingPrice = 105000,
          paymentMethod = ''Finance (Leasing)'', buyerName = ''Fatima Ali'',
          buyerAddress = ''456 Park Avenue, Lahore'', buyerNIC = ''35202-9876543-2'',
          buyerPhone = ''0312-9876543'', saleNotes = ''Quick sale, finance approved''\<rparr>]
      in saveSales sales (saveWheels wheels st))"

subsection \<open>What a handler leaves behind\<close>

text \<open>
  A handler returns nothing; what it does is seen in the storage and in the dialogs it
  opens: \<^verbatim>\<open>confirmAction(message)\<close> (line 197) asks the user and returns the answer,
  \<^verbatim>\<open>showAlert(message)\<close> (line 205) tells the user. The user's answers are given to the
  model as a function from the question to the answer. An exception that no handler
  catches ends the handler where it is raised; the storage written so far stays written.

  The handlers end by drawing the page again (\<^verbatim>\<open>renderWheels()\<close>, \<^verbatim>\<open>renderSales()\<close>,
  \<^verbatim>\<open>updateWheelSelect()\<close>, \<^verbatim>\<open>renderReport()\<close>). These calls write nothing to the storage
  and open no dialog; the model of a handler stops before them, so \<open>Returned\<close> says that
  the handler came to that point. Of the four, \<^verbatim>\<open>renderReport\<close> is modelled on its own, as
  the function from the storage and the two date inputs to the rows and totals it shows.
\<close>

datatype ui_event = Confirm string | Alert string

text \<open>The three questions asked with \<^verbatim>\<open>confirmAction\<close> (lines 313, 323 and 811).\<close>

definition q_delete :: string where
  "q_delete = ''Are you sure you want to delete this wheel? This action cannot be undone.''"

definition q_cascade :: string where
  "q_cascade =
     ''This wheel has been sold. Deleting it will also remove the sale record. Continue?''"

definition q_import :: string where
  "q_import = ''This will replace all current data. Are you sure?''"

datatype 'st outcome =
    Returned (storage: 'st) (dialogs: "ui_event list")
  | Threw error (storage: 'st) (dialogs: "ui_event list")

subsection \<open>Values read from the page\<close>

text \<open>
  A character of a string is a code unit below 256. \<^verbatim>\<open>String.prototype.trim\<close> removes the
  white space and the line terminators of ECMAScript from both ends; those below 256 are
  U+0009 to U+000D, the space U+0020 and the no-break space U+00A0.
  \<^verbatim>\<open>parseInt\<close> and \<^verbatim>\<open>parseFloat\<close> give a number or \<^verbatim>\<open>NaN\<close>: the forms below hold their
  results, \<open>None\<close> for \<^verbatim>\<open>NaN\<close>.
\<close>

definition is_space :: "char \<Rightarrow> bool" where
  "is_space c =
     (c \<in> set [CHR 0x09, CHR 0x0A, CHR 0x0B, CHR 0x0C, CHR 0x0D, CHR 0x20, CHR 0xA0])"

definition trim :: "string \<Rightarrow> string" where
  "trim s = rev (dropWhile is_space (rev (dropWhile is_space s)))"

record wheelForm =
  wheelId_value :: string
  model_value :: string
  year_value :: "int option"
  vehicleNumber_value :: string
  color_value :: string
  chassisNumber_value :: string
  engineNumber_value :: string
  purchasePrice_value :: "real option"
  notes_value :: string

record saleForm =
  wheelSelect_value :: string
  sellingPrice_value :: "real option"
  paymentMethod_value :: string
  buyerName_value :: string
  buyerAddress_value :: string
  buyerNIC_value :: string
  buyerPhone_value :: string
  saleDate_value :: string
  saleNotes_value :: string

subsection \<open>Wheel management (src/app.js lines 312-435)\<close>

text \<open>
  \<^verbatim>\<open>deleteWheel(wheelId)\<close>, lines 312-339. The first question is asked for every wheel, the
  second only when some sale has this \<^verbatim>\<open>wheelId\<close>. The two collections are loaded before
  anything is written; \<^verbatim>\<open>sales.some\<close> and \<^verbatim>\<open>wheels.filter\<close> are array methods, absent from
  any other value. The four render calls that follow the writes change the page only.
\<close>

definition deleteWheel ::
  "(string \<Rightarrow> bool) \<Rightarrow> string \<Rightarrow> (wheel, sale) localStorage \<Rightarrow> (wheel, sale) localStorage outcome" where
  "deleteWheel confirm wid st =
     (if \<not> confirm q_delete then Returned st [Confirm q_delete]
      else case loadWheels st of
        Inl e \<Rightarrow> Threw e st [Confirm q_delete]
      | Inr wheels \<Rightarrow>
          (case loadSales st of
             Inl e \<Rightarrow> Threw e st [Confirm q_delete]
           | Inr (NotArray v) \<Rightarrow> Threw TypeError st [Confirm q_delete]
           | Inr (Array sales) \<Rightarrow>
               let hasSale = list_ex (\<lambda>sale. wheelId sale = wid) sales in
               if hasSale \<and> \<not> confirm q_cascade
               then Returned st [Confirm q_delete, Confirm q_cascade]
               else
                 let st1 = (if hasSale
                            then saveSales (filter (\<lambda>sale. wheelId sale \<noteq> wid) sales) st
                            else st);
                     asked = (if hasSale then [Confirm q_delete, Confirm q_cascade]
                              else [Confirm q_delete])
                 in (case wheels of
                       NotArray v \<Rightarrow> Threw TypeError st1 asked
                     | Array ws \<Rightarrow>
                         Returned (saveWheels (filter (\<lambda>w. wheel_id w \<noteq> wid) ws) st1)
                           (asked @ [Alert ''Wheel deleted successfully'']))))"

text \<open>\<^verbatim>\<open>Array.prototype.findIndex\<close>; \<open>None\<close> is the result \<^verbatim>\<open>-1\<close>.\<close>

fun findIndex :: "('a \<Rightarrow> bool) \<Rightarrow> 'a list \<Rightarrow> nat option" where
  "findIndex P [] = None"
| "findIndex P (x # xs) = (if P x then Some 0 else map_option Suc (findIndex P xs))"

text \<open>
  \<^verbatim>\<open>handleWheelSubmit(e)\<close>, lines 344-435. \<open>editing\<close> is the global \<^verbatim>\<open>editingWheelId\<close>
  (\<^verbatim>\<open>null\<close> is \<open>None\<close>), \<open>newId\<close> what \<^verbatim>\<open>generateId('wheel')\<close> returns and \<open>today\<close> what
  \<^verbatim>\<open>getTodayDate()\<close> returns. The update is taken when the hidden field \<^verbatim>\<open>wheelId\<close> and
  \<^verbatim>\<open>editingWheelId\<close> are both truthy; it has no \<^verbatim>\<open>else\<close> for an id that is not found.
  Where the year and the price are used they have passed the checks, so they are numbers
  (\<open>the\<close> is applied to \<open>Some\<close> only).
\<close>

definition handleWheelSubmit ::
  "string option \<Rightarrow> string \<Rightarrow> string \<Rightarrow> wheelForm \<Rightarrow> (wheel, 's) localStorage
     \<Rightarrow> (wheel, 's) localStorage outcome" where
  "handleWheelSubmit editing newId today form st =
     (if trim (model_value form) = [] then Returned st [Alert ''Model is required'']
      else if (case year_value form of None \<Rightarrow> True | Some y \<Rightarrow> y < 1900 \<or> y > 2100)
        then Returned st [Alert ''Please enter a valid year'']
      else if trim (vehicleNumber_value form) = []
        then Returned st [Alert ''Vehicle Number is required'']
      else if trim (color_value form) = [] then Returned st [Alert ''Color is required'']
      else if trim (chassisNumber_value form) = []
        then Returned st [Alert ''Chassis Number is required'']
      else if trim (engineNumber_value form) = []
        then Returned st [Alert ''Engine Number is required'']
      else if (case purchasePrice_value form of None \<Rightarrow> True | Some p \<Rightarrow> p \<le> 0)
        then Returned st [Alert ''Purchase price must be greater than 0'']
      else case loadWheels st of
        Inl e \<Rightarrow> Threw e st []
      | Inr (NotArray v) \<Rightarrow> Threw TypeError st []
      | Inr (Array wheels) \<Rightarrow>
          if wheelId_value form \<noteq> [] \<and> editing \<noteq> None \<and> editing \<noteq> Some []
          then (case findIndex (\<lambda>w. wheel_id w = wheelId_value form) wheels of
                  Some index \<Rightarrow>
                    Returned
                      (saveWheels
                         (wheels[index := (wheels ! index)
                            \<lparr>model := trim (model_value form),
                             year := the (year_value form),
                             vehicleNumber := trim (vehicleNumber_value form),
                             color := trim (color_value form),
                             chassisNumber := trim (chassisNumber_value form),
                             engineNumber := trim (engineNumber_value form),
                             wheel_notes := trim (notes_value form),
                             purchasePrice := the (purchasePrice_value form)\<rparr>]) st)
                      [Alert ''Wheel updated successfully'']
                | None \<Rightarrow> Returned st [])
          else
            Returned
              (saveWheels
                 (wheels @
                    [\<lparr>wheel_id = newId,
                      model = trim (model_value form),
                      year = the (year_value form),
                      vehicleNumber = trim (vehicleNumber_value form),
                      color = trim (color_value form),
                      chassisNumber = trim (chassisNumber_value form),
                      engineNumber = trim (engineNumber_value form),
                      wheel_notes = trim (notes_value form),
                      purchasePrice = the (purchasePrice_value form),
                      addedDate = today\<rparr>]) st)
              [Alert ''Wheel added successfully''])"

subsection \<open>Sales management (src/app.js lines 493-588)\<close>

text \<open>
  \<^verbatim>\<open>handleSaleSubmit(e)\<close>. The checks of the fields come first, in the order of the source;
  the sales are loaded and searched for the wheel only after all of them. \<open>newId\<close> is
  what \<^verbatim>\<open>generateId('sale')\<close> returns. The payment method and the date are not trimmed.
\<close>

definition handleSaleSubmit ::
  "string \<Rightarrow> saleForm \<Rightarrow> ('w, sale) localStorage \<Rightarrow> ('w, sale) localStorage outcome" where
  "handleSaleSubmit newId form st =
     (if wheelSelect_value form = [] then Returned st [Alert ''Please select a wheel'']
      else if (case sellingPrice_value form of None \<Rightarrow> True | Some p \<Rightarrow> p \<le> 0)
        then Returned st [Alert ''Selling price must be greater than 0'']
      else if paymentMethod_value form = []
        then Returned st [Alert ''Payment method is required'']
      else if trim (buyerName_value form) = []
        then Returned st [Alert ''Buyer name is required'']
      else if trim (buyerAddress_value form) = []
        then Returned st [Alert ''Buyer address is required'']
      else if trim (buyerNIC_value form) = []
        then Returned st [Alert ''Buyer NIC number is required'']
      else if trim (buyerPhone_value form) = []
        then Returned st [Alert ''Buyer phone number is required'']
      else if saleDate_value form = [] then Returned st [Alert ''Sale date is required'']
      else case loadSales st of
        Inl e \<Rightarrow> Threw e st []
      | Inr (NotArray v) \<Rightarrow> Threw TypeError st []
      | Inr (Array sales) \<Rightarrow>
          if list_ex (\<lambda>sale. wheelId sale = wheelSelect_value form) sales
          then Returned st [Alert ''This wheel has already been sold'']
          else
            let newSale =
                  \<lparr>sale_id = newId,
                   wheelId = wheelSelect_value form,
                   saleDate = saleDate_value form,
                   sellingPrice = the (sellingPrice_value form),
                   paymentMethod = paymentMethod_value form,
                   buyerName = trim (buyerName_value form),
                   buyerAddress = trim (buyerAddress_value form),
                   buyerNIC = trim (buyerNIC_value form),
                   buyerPhone = trim (buyerPhone_value form),
                   saleNotes = trim (saleNotes_value form)\<rparr>
            in Returned
                 ((saveSales (sales @ [newSale]) st)
                    \<lparr>threeWheel_currentSale := Some (JSON_stringify newSale)\<rparr>)
                 [Alert ''Sale recorded successfully''])"

subsection \<open>Reports (src/app.js lines 597-680)\<close>

text \<open>
  A row of \<^verbatim>\<open>currentReportData\<close> is the sale itself (\<^verbatim>\<open>...sale\<close>) with four more
  properties. The totals are computed in lines 659-663, after the early return of line 639
  for a report without rows.
\<close>

record report_row =
  row_sale :: sale
  row_wheel :: "wheel option"
  row_model :: string
  row_purchasePrice :: real
  row_profit :: real

record summary =
  count :: nat
  totalRevenue :: real
  totalCost :: real
  totalProfit :: real

text \<open>The function mapped over the filtered sales, lines 616-625.\<close>

definition enrich :: "wheel list \<Rightarrow> sale \<Rightarrow> report_row" where
  "enrich wheels sale =
     (let wheel = find (\<lambda>w. wheel_id w = wheelId sale) wheels in
      \<lparr>row_sale = sale,
       row_wheel = wheel,
       row_model = (case wheel of Some w \<Rightarrow> model w | None \<Rightarrow> ''Unknown''),
       row_purchasePrice = (case wheel of Some w \<Rightarrow> purchasePrice w | None \<Rightarrow> 0),
       row_profit = (case wheel of Some w \<Rightarrow> sellingPrice sale - purchasePrice w
                                 | None \<Rightarrow> sellingPrice sale)\<rparr>)"

text \<open>
  \<^verbatim>\<open>renderReport()\<close>. \<open>fromDate\<close> and \<open>toDate\<close> are the values of the two date inputs, the
  empty string when no date is chosen. Strings are compared in the lexicographic order of
  their characters, which on the ASCII characters of a date is the order of JavaScript's
  \<^verbatim>\<open>>=\<close> and \<^verbatim>\<open><=\<close>. \<^verbatim>\<open>wheels.find\<close> is called once for each filtered sale, so a value
  of \<^verbatim>\<open>loadWheels()\<close> that is not an array raises only when a sale is left. The result is
  \<^verbatim>\<open>currentReportData\<close> and the totals of the footer (\<open>None\<close> when the footer is emptied).
\<close>

definition renderReport ::
  "string \<Rightarrow> string \<Rightarrow> (wheel, sale) localStorage \<Rightarrow> error + report_row list \<times> summary option" where
  "renderReport fromDate toDate st =
     (case loadSales st of
        Inl e \<Rightarrow> Inl e
      | Inr salesv \<Rightarrow>
          (case loadWheels st of
             Inl e \<Rightarrow> Inl e
           | Inr wheelsv \<Rightarrow>
               (case salesv of
                  NotArray v \<Rightarrow> Inl TypeError
                | Array sales \<Rightarrow>
                    let filtered1 = (if fromDate \<noteq> []
                                     then filter (\<lambda>sale. saleDate sale \<ge> fromDate) sales
                                     else sales);
                        filteredSales = (if toDate \<noteq> []
                                         then filter (\<lambda>sale. saleDate sale \<le> toDate) filtered1
                                         else filtered1)
                    in (case (wheelsv, filteredSales) of
                          (NotArray v, s # rest) \<Rightarrow> Inl TypeError
                        | (NotArray v, []) \<Rightarrow> Inr ([], None)
                        | (Array wheels, _) \<Rightarrow>
                            let currentReportData = map (enrich wheels) filteredSales in
                            if length currentReportData = 0 then Inr (currentReportData, None)
                            else
                              let totalRevenue' =
                                    foldl (\<lambda>sum item. sum + sellingPrice (row_sale item)) 0
                                      currentReportData;
                                  totalCost' =
                                    foldl (\<lambda>sum item. sum + row_purchasePrice item) 0
                                      currentReportData
                              in Inr (currentReportData,
                                      Some \<lparr>count = length currentReportData,
                                            totalRevenue = totalRevenue',
                                            totalCost = totalCost',
                                            totalProfit = totalRevenue' - totalCost'\<rparr>)))))"

subsection \<open>Backup and restore (src/app.js lines 770-839)\<close>

text \<open>
  The value parsed from a backup file, as far as \<^verbatim>\<open>handleFileImport\<close> looks at it: of an
  object its properties \<^verbatim>\<open>wheels\<close>, \<^verbatim>\<open>sales\<close> and \<^verbatim>\<open>exportDate\<close> (\<open>None\<close> for a property
  that is not there, which reads as \<^verbatim>\<open>undefined\<close>). Reading a property of \<^verbatim>\<open>null\<close> raises a
  \<^verbatim>\<open>TypeError\<close>; a boolean, a number, a string or an array has neither property.
\<close>

datatype ('w, 's) backup =
    BNull
  | BObject "'w jsvalue option" "'s jsvalue option" "string option"
  | BBoolean bool
  | BNumber real
  | BString string
  | BArray

fun data_wheels :: "('w, 's) backup \<Rightarrow> error + 'w jsvalue option" where
  "data_wheels BNull = Inl TypeError"
| "data_wheels (BObject w s d) = Inr w"
| "data_wheels other = Inr None"

fun data_sales :: "('w, 's) backup \<Rightarrow> error + 's jsvalue option" where
  "data_sales BNull = Inl TypeError"
| "data_sales (BObject w s d) = Inr s"
| "data_sales other = Inr None"

text \<open>\<^verbatim>\<open>data.wheels && Array.isArray(data.wheels)\<close>, and the array that is then saved.\<close>

definition is_list :: "'a jsvalue option \<Rightarrow> bool" where
  "is_list p = (case p of None \<Rightarrow> False | Some v \<Rightarrow> truthy v \<and> Array_isArray v)"

fun elements :: "'a jsvalue option \<Rightarrow> 'a list" where
  "elements (Some (Array xs)) = xs"
| "elements p = []"

text \<open>
  \<^verbatim>\<open>exportToJSON()\<close>: the text of the downloaded file. \<open>now\<close> is
  \<^verbatim>\<open>new Date().toISOString()\<close>.
\<close>

definition exportToJSON :: "string \<Rightarrow> ('w, 's) localStorage \<Rightarrow> error + ('w, 's) backup json_text" where
  "exportToJSON now st =
     (case loadWheels st of
        Inl e \<Rightarrow> Inl e
      | Inr wheels \<Rightarrow>
          (case loadSales st of
             Inl e \<Rightarrow> Inl e
           | Inr sales \<Rightarrow> Inr (JSON_stringify (BObject (Some wheels) (Some sales) (Some now)))))"

text \<open>
  \<^verbatim>\<open>handleFileImport(e)\<close> with the \<^verbatim>\<open>onload\<close> function of its reader. \<open>file\<close> is the text of
  the chosen file, \<open>None\<close> when no file is chosen. Everything from \<^verbatim>\<open>JSON.parse\<close> on is
  inside \<^verbatim>\<open>try\<close>: an exception is caught and shown as an alert, and what was written before
  it stays written.
\<close>

definition import_failed :: ui_event where
  "import_failed = Alert ''Error importing file. Please check the file format.''"

definition handleFileImport ::
  "(string \<Rightarrow> bool) \<Rightarrow> ('w, 's) backup json_text option \<Rightarrow> ('w, 's) localStorage
     \<Rightarrow> ('w, 's) localStorage outcome" where
  "handleFileImport confirm file st =
     (case file of
        None \<Rightarrow> Returned st []
      | Some result \<Rightarrow>
          (case JSON_parse result of
             Inl e \<Rightarrow> Returned st [import_failed]
           | Inr data \<Rightarrow>
               if \<not> confirm q_import then Returned st [Confirm q_import]
               else
                 (case data_wheels data of
                    Inl e \<Rightarrow> Returned st [Confirm q_import, import_failed]
                  | Inr w \<Rightarrow>
                      let st1 = (if is_list w then saveWheels (elements w) st else st) in
                      (case data_sales data of
                         Inl e \<Rightarrow> Returned st1 [Confirm q_import, import_failed]
                       | Inr s \<Rightarrow>
                           let st2 = (if is_list s then saveSales (elements s) st1 else st1)
                           in Returned st2
                                [Confirm q_import, Alert ''Data imported successfully'']))))"

subsection \<open>Notions used in the statements\<close>

text \<open>
  The invariant of the sales: the stored sales are an array in which no two sales have the
  same \<^verbatim>\<open>wheelId\<close>.
\<close>

definition one_sale_per_wheel :: "('w, sale) localStorage \<Rightarrow> bool" where
  "one_sale_per_wheel st =
     (case loadSales st of Inr (Array sales) \<Rightarrow> distinct (map wheelId sales) | _ \<Rightarrow> False)"

text \<open>
  The message of the first check of lines 507-545 that a sale form fails, in the order of
  the source; \<open>None\<close> when it passes them all.
\<close>

definition sale_field_error :: "saleForm \<Rightarrow> string option" where
  "sale_field_error form =
     (if wheelSelect_value form = [] then Some ''Please select a wheel''
      else if (case sellingPrice_value form of None \<Rightarrow> True | Some p \<Rightarrow> p \<le> 0)
        then Some ''Selling price must be greater than 0''
      else if paymentMethod_value form = [] then Some ''Payment method is required''
      else if trim (buyerName_value form) = [] then Some ''Buyer name is required''
      else if trim (buyerAddress_value form) = [] then Some ''Buyer address is required''
      else if trim (buyerNIC_value form) = [] then Some ''Buyer NIC number is required''
      else if trim (buyerPhone_value form) = [] then Some ''Buyer phone number is required''
      else if saleDate_value form = [] then Some ''Sale date is required''
      else None)"

text \<open>A sale form that passes every check of lines 507-545.\<close>

definition sale_fields_valid :: "saleForm \<Rightarrow> bool" where
  "sale_fields_valid form =
     (wheelSelect_value form \<noteq> [] \<and>
      (case sellingPrice_value form of None \<Rightarrow> False | Some p \<Rightarrow> 0 < p) \<and>
      paymentMethod_value form \<noteq> [] \<and>
      trim (buyerName_value form) \<noteq> [] \<and>
      trim (buyerAddress_value form) \<noteq> [] \<and>
      trim (buyerNIC_value form) \<noteq> [] \<and>
      trim (buyerPhone_value form) \<noteq> [] \<and>
      saleDate_value form \<noteq> [])"

text \<open>
  Concrete inputs: the demonstration data seeded at \<^verbatim>\<open>Date.now() = 1700000000000\<close>, and a
  filled sale form for its first wheel, which the first demonstration sale has sold.
\<close>

definition demo :: "(wheel, sale) localStorage" where
  "demo = seedDemoData ''1700000000000'' no_data"

definition demo_sold_form :: saleForm where
  "demo_sold_form =
     \<lparr>wheelSelect_value = ''wheel_1700000000000_1'', sellingPrice_value = Some 99000,
      paymentMethod_value = ''Ready Cash'', buyerName_value = ''Bilal '',
      buyerAddress_value = ''7 Canal Road'', buyerNIC_value = ''42101-7654321-3'',
      buyerPhone_value = ''0301-7654321'', saleDate_value = ''2024-04-02'',
      saleNotes_value = ''''\<rparr>"

text \<open>
  The same form for the third demonstration wheel, which is not sold, and two sales of one
  wheel, as a backup file can hold them.
\<close>

definition demo_free_form :: saleForm where
  "demo_free_form = demo_sold_form\<lparr>wheelSelect_value := ''wheel_1700000000000_3''\<rparr>"

definition twice_sold :: "sale list" where
  "twice_sold =
     [\<lparr>sale_id = ''sale_1'', wheelId = ''wheel_1'', saleDate = ''2024-02-01'',
       sellingPrice = 95000, paymentMethod = ''Ready Cash'', buyerName = ''Ahmed Khan'',
       buyerAddress = ''Karachi'', buyerNIC = ''42101-1234567-1'',
       buyerPhone = ''0300-1234567'', saleNotes = ''''\<rparr>,
      \<lparr>sale_id = ''sale_2'', wheelId = ''wheel_1'', saleDate = ''2024-03-15'',
       sellingPrice = 105000, paymentMethod = ''Ready Cash'', buyerName = ''Fatima Ali'',
       buyerAddress = ''Lahore'', buyerNIC = ''35202-9876543-2'',
       buyerPhone = ''0312-9876543'', saleNotes = ''''\<rparr>]"

text \<open>
  The message of the first check of lines 358-391 that a wheel form fails, in the order of
  the source; \<open>None\<close> when it passes them all.
\<close>

definition wheel_field_error :: "wheelForm \<Rightarrow> string option" where
  "wheel_field_error form =
     (if trim (model_value form) = [] then Some ''Model is required''
      else if (case year_value form of None \<Rightarrow> True | Some y \<Rightarrow> y < 1900 \<or> y > 2100)
        then Some ''Please enter a valid year''
      else if trim (vehicleNumber_value form) = [] then Some ''Vehicle Number is required''
      else if trim (color_value form) = [] then Some ''Color is required''
      else if trim (chassisNumber_value form) = [] then Some ''Chassis Number is required''
      else if trim (engineNumber_value form) = [] then Some ''Engine Number is required''
      else if (case purchasePrice_value form of None \<Rightarrow> True | Some p \<Rightarrow> p \<le> 0)
        then Some ''Purchase price must be greater than 0''
      else None)"

text \<open>A wheel form that passes every check of lines 358-391.\<close>

definition wheel_fields_valid :: "wheelForm \<Rightarrow> bool" where
  "wheel_fields_valid form =
     (trim (model_value form) \<noteq> [] \<and>
      (case year_value form of None \<Rightarrow> False | Some y \<Rightarrow> 1900 \<le> y \<and> y \<le> 2100) \<and>
      trim (vehicleNumber_value form) \<noteq> [] \<and>
      trim (color_value form) \<noteq> [] \<and>
      trim (chassisNumber_value form) \<noteq> [] \<and>
      trim (engineNumber_value form) \<noteq> [] \<and>
      (case purchasePrice_value form of None \<Rightarrow> False | Some p \<Rightarrow> 0 < p))"

text \<open>
  A filled wheel form for an id that no demonstration wheel has, and a sale of a wheel with
  that id.
\<close>

definition demo_ghost_form :: wheelForm where
  "demo_ghost_form =
     \<lparr>wheelId_value = ''wheel_ghost'', model_value = ''Bajaj RE'', year_value = Some 2020,
      vehicleNumber_value = ''JKL-7788'', color_value = ''Green'',
      chassisNumber_value = ''CH000111222'', engineNumber_value = ''EN000111222'',
      purchasePrice_value = Some 70000, notes_value = ''''\<rparr>"

definition ghost_sale :: sale where
  "ghost_sale =
     \<lparr>sale_id = ''sale_9'', wheelId = ''wheel_ghost'', saleDate = ''2024-05-05'',
      sellingPrice = 80000, paymentMethod = ''Ready Cash'', buyerName = ''Imran'',
      buyerAddress = ''Multan'', buyerNIC = ''36302-1112223-4'', buyerPhone = ''0333-1112223'',
      saleNotes = ''''\<rparr>"

text \<open>The sales of a report: each bound counts only when its date input is not empty.\<close>

definition in_range :: "string \<Rightarrow> string \<Rightarrow> sale \<Rightarrow> bool" where
  "in_range fromDate toDate sale =
     ((fromDate = [] \<or> fromDate \<le> saleDate sale) \<and> (toDate = [] \<or> saleDate sale \<le> toDate))"

text \<open>The demonstration wheels with, as only sale, a sale of a wheel that is not stored.\<close>

definition dangling :: "(wheel, sale) localStorage" where
  "dangling = saveSales [ghost_sale] demo"

text \<open>A backup with an empty array of wheels and a string in place of the sales.\<close>

definition demo_bad_backup :: "(wheel, sale) backup" where
  "demo_bad_backup = BObject (Some (Array [])) (Some (NotArray (String ''none''))) None"

text \<open>
  The list that a key of the storage holds, read off the stored text itself: a key that is
  not set or holds the empty string holds the empty list, the text of an array holds its
  elements, and a text that cannot be parsed, or the text of another value, holds no list.
\<close>

fun holds_list :: "'a jsvalue json_text option \<Rightarrow> 'a list \<Rightarrow> bool" where
  "holds_list None xs = (xs = [])"
| "holds_list (Some Empty) xs = (xs = [])"
| "holds_list (Some Malformed) xs = False"
| "holds_list (Some (Doc (Array ys))) xs = (xs = ys)"
| "holds_list (Some (Doc (NotArray v))) xs = False"

section \<open>Properties\<close>

subsection \<open>Storage\<close>

lemma loadWheels_saveWheels: "loadWheels (saveWheels ws st) = Inr (Array ws)"
  by (simp add: loadWheels_def saveWheels_def JSON_stringify_def)

lemma loadSales_saveSales: "loadSales (saveSales ss st) = Inr (Array ss)"
  by (simp add: loadSales_def saveSales_def JSON_stringify_def)

lemma loadWheels_saveSales: "loadWheels (saveSales ss st) = loadWheels st"
  by (simp add: loadWheels_def saveSales_def)

lemma loadSales_saveWheels: "loadSales (saveWheels ws st) = loadSales st"
  by (simp add: loadSales_def saveWheels_def)

lemma loadSales_currentSale [simp]:
  "loadSales (st\<lparr>threeWheel_currentSale := c\<rparr>) = loadSales st"
  by (simp add: loadSales_def)

lemma loadWheels_currentSale [simp]:
  "loadWheels (st\<lparr>threeWheel_currentSale := c\<rparr>) = loadWheels st"
  by (simp add: loadWheels_def)

lemma demo_loadSales:
  "\<exists>s1 s2. loadSales demo = Inr (Array [s1, s2]) \<and>
     wheelId s1 = ''wheel_1700000000000_1'' \<and> wheelId s2 = ''wheel_1700000000000_2''"
  by (simp add: demo_def seedDemoData_def loadSales_saveSales)

text \<open>
  C4. Loading a collection gives the empty array when the key is not set or holds the
  empty string. A stored string that is not empty is handed to \<^verbatim>\<open>JSON.parse\<close>, and when it
  cannot be parsed the \<^verbatim>\<open>SyntaxError\<close> leaves \<^verbatim>\<open>loadWheels\<close> (or \<^verbatim>\<open>loadSales\<close>): neither
  function, nor \<^verbatim>\<open>init\<close>, which calls \<^verbatim>\<open>loadWheels\<close> first (line 1154), catches it.
\<close>

theorem load_unparseable:
  "loadWheels st =
     (case threeWheel_items st of
        None \<Rightarrow> Inr (Array [])
      | Some Empty \<Rightarrow> Inr (Array [])
      | Some Malformed \<Rightarrow> Inl SyntaxError
      | Some (Doc v) \<Rightarrow> Inr v) \<and>
   loadSales st =
     (case threeWheel_sales st of
        None \<Rightarrow> Inr (Array [])
      | Some Empty \<Rightarrow> Inr (Array [])
      | Some Malformed \<Rightarrow> Inl SyntaxError
      | Some (Doc v) \<Rightarrow> Inr v)"
  by (simp add: loadWheels_def loadSales_def split: option.split json_text.split)

text \<open>
  C4 as the specification states it fails: with a stored string such as \<^verbatim>\<open>{\<close> under either
  key, the load does not return the empty array, it raises.
\<close>

theorem load_malformed_counterexample:
  "loadWheels ((no_data :: (wheel, sale) localStorage)\<lparr>threeWheel_items := Some Malformed\<rparr>)
     = Inl SyntaxError \<and>
   loadWheels ((no_data :: (wheel, sale) localStorage)\<lparr>threeWheel_items := Some Malformed\<rparr>)
     \<noteq> Inr (Array []) \<and>
   loadSales ((no_data :: (wheel, sale) localStorage)\<lparr>threeWheel_sales := Some Malformed\<rparr>)
     = Inl SyntaxError \<and>
   loadSales ((no_data :: (wheel, sale) localStorage)\<lparr>threeWheel_sales := Some Malformed\<rparr>)
     \<noteq> Inr (Array [])"
  by (simp add: loadWheels_def loadSales_def no_data_def)

subsection \<open>Recording a sale\<close>

lemma handleSaleSubmit_sold_storage:
  assumes "loadSales st = Inr (Array sales)"
    and "list_ex (\<lambda>sale. wheelId sale = wheelSelect_value form) sales"
  shows "\<exists>msg. handleSaleSubmit newId form st = Returned st [Alert msg] \<and>
               msg \<noteq> ''Sale recorded successfully''"
  using assms by (simp add: handleSaleSubmit_def)

text \<open>
  C2, amended. When a stored sale has the chosen wheel, \<^verbatim>\<open>handleSaleSubmit\<close> ends with one
  alert that is not the one of success, and the storage (both collections and the current
  sale) is the one it started from. The checks of the fields come first: a form that fails
  one of them gets the message of the first check it fails, and a form that passes them
  all gets "This wheel has already been sold". The search is made on the sales loaded at
  that moment, whatever the page offered.
\<close>

theorem recordSale_already_sold:
  assumes "loadSales st = Inr (Array sales)"
    and "list_ex (\<lambda>sale. wheelId sale = wheelSelect_value form) sales"
  shows "(\<exists>msg. handleSaleSubmit newId form st = Returned st [Alert msg] \<and>
               msg \<noteq> ''Sale recorded successfully'') \<and>
         (sale_fields_valid form \<longrightarrow>
            handleSaleSubmit newId form st =
              Returned st [Alert ''This wheel has already been sold'']) \<and>
         handleSaleSubmit newId form st =
           Returned st
             [Alert (case sale_field_error form of
                       Some msg \<Rightarrow> msg
                     | None \<Rightarrow> ''This wheel has already been sold'')] \<and>
         sale_fields_valid form = (sale_field_error form = None)"
proof (intro conjI)
  show "\<exists>msg. handleSaleSubmit newId form st = Returned st [Alert msg] \<and>
               msg \<noteq> ''Sale recorded successfully''"
    using assms by (rule handleSaleSubmit_sold_storage)
next
  show "sale_fields_valid form \<longrightarrow>
            handleSaleSubmit newId form st =
              Returned st [Alert ''This wheel has already been sold'']"
    using assms
    by (auto simp add: handleSaleSubmit_def sale_fields_valid_def split: option.splits)
next
  show "handleSaleSubmit newId form st =
           Returned st
             [Alert (case sale_field_error form of
                       Some msg \<Rightarrow> msg
                     | None \<Rightarrow> ''This wheel has already been sold'')]"
    using assms by (simp add: handleSaleSubmit_def sale_field_error_def)
next
  show "sale_fields_valid form = (sale_field_error form = None)"
    by (auto simp add: sale_fields_valid_def sale_field_error_def split: option.splits)
qed

theorem recordSale_already_sold_witness:
  "handleSaleSubmit ''sale_1700000000500_k3x9q2m1a'' demo_sold_form demo
     = Returned demo [Alert ''This wheel has already been sold''] \<and>
   handleSaleSubmit ''sale_1700000000500_k3x9q2m1a''
       (demo_sold_form\<lparr>buyerName_value := [CHR 0xA0]\<rparr>) demo
     = Returned demo [Alert ''Buyer name is required''] \<and>
   handleSaleSubmit ''sale_1700000000500_k3x9q2m1a''
       (demo_sold_form\<lparr>sellingPrice_value := None, saleDate_value := []\<rparr>) demo
     = Returned demo [Alert ''Selling price must be greater than 0'']"
proof -
  obtain s1 s2 where l: "loadSales demo = Inr (Array [s1, s2])"
    and w: "wheelId s1 = ''wheel_1700000000000_1''"
    using demo_loadSales by blast
  have ex: "list_ex (\<lambda>sale. wheelId sale = wheelSelect_value f) [s1, s2]"
    if "wheelSelect_value f = ''wheel_1700000000000_1''" for f
    using w that by simp
  have v: "sale_fields_valid demo_sold_form"
    by (simp add: sale_fields_valid_def demo_sold_form_def trim_def is_space_def)
  have e1: "sale_field_error (demo_sold_form\<lparr>buyerName_value := [CHR 0xA0]\<rparr>)
              = Some ''Buyer name is required''"
    by (simp add: sale_field_error_def demo_sold_form_def trim_def is_space_def)
  have e2: "sale_field_error (demo_sold_form\<lparr>sellingPrice_value := None, saleDate_value := []\<rparr>)
              = Some ''Selling price must be greater than 0''"
    by (simp add: sale_field_error_def demo_sold_form_def)
  have sel: "wheelSelect_value demo_sold_form = ''wheel_1700000000000_1''"
    by (simp add: demo_sold_form_def)
  from recordSale_already_sold
         [OF l ex, of demo_sold_form "''sale_1700000000500_k3x9q2m1a''"]
       recordSale_already_sold
         [OF l ex, of "demo_sold_form\<lparr>buyerName_value := [CHR 0xA0]\<rparr>"
            "''sale_1700000000500_k3x9q2m1a''"]
       recordSale_already_sold
         [OF l ex, of "demo_sold_form\<lparr>sellingPrice_value := None, saleDate_value := []\<rparr>"
            "''sale_1700000000500_k3x9q2m1a''"]
       v e1 e2 sel
  show ?thesis by simp
qed

text \<open>
  C2 as the specification states it fails: the checks of the fields come before the search
  of the sales. The first demonstration wheel is sold; a form for it whose buyer name is
  blank is refused for the buyer name, not for the wheel being sold.
\<close>

theorem recordSale_validation_first_counterexample:
  "(case loadSales demo of
      Inr (Array sales) \<Rightarrow> list_ex (\<lambda>sale. wheelId sale = ''wheel_1700000000000_1'') sales
    | _ \<Rightarrow> False) \<and>
   wheelSelect_value (demo_sold_form\<lparr>buyerName_value := ''  ''\<rparr>) = ''wheel_1700000000000_1'' \<and>
   handleSaleSubmit ''sale_1700000000500_k3x9q2m1a'' (demo_sold_form\<lparr>buyerName_value := ''  ''\<rparr>)
      demo
     = Returned demo [Alert ''Buyer name is required'']"
  by (simp add: handleSaleSubmit_def demo_sold_form_def trim_def is_space_def
        demo_def seedDemoData_def loadSales_saveSales)

subsection \<open>One sale for each wheel\<close>

lemma handleSaleSubmit_cases:
  assumes "loadSales st = Inr (Array sales)"
  shows "(\<exists>msg. handleSaleSubmit newId form st = Returned st [Alert msg]) \<or>
         (\<not> list_ex (\<lambda>sale. wheelId sale = wheelSelect_value form) sales \<and>
          (\<exists>new. wheelId new = wheelSelect_value form \<and>
             loadSales (storage (handleSaleSubmit newId form st)) = Inr (Array (sales @ [new]))))"
  using assms
  by (simp add: handleSaleSubmit_def Let_def loadSales_saveSales)

lemma handleSaleSubmit_keeps_invariant:
  assumes "one_sale_per_wheel st"
  shows "one_sale_per_wheel (storage (handleSaleSubmit newId form st))"
proof -
  from assms obtain sales where l: "loadSales st = Inr (Array sales)"
    and d: "distinct (map wheelId sales)"
    by (auto simp add: one_sale_per_wheel_def split: sum.splits jsvalue.splits)
  from handleSaleSubmit_cases [OF l, of newId form] show ?thesis
  proof
    assume "\<exists>msg. handleSaleSubmit newId form st = Returned st [Alert msg]"
    then show ?thesis using assms by auto
  next
    assume a: "\<not> list_ex (\<lambda>sale. wheelId sale = wheelSelect_value form) sales \<and>
          (\<exists>new. wheelId new = wheelSelect_value form \<and>
             loadSales (storage (handleSaleSubmit newId form st)) = Inr (Array (sales @ [new])))"
    then obtain new where n: "wheelId new = wheelSelect_value form"
      and l': "loadSales (storage (handleSaleSubmit newId form st)) = Inr (Array (sales @ [new]))"
      by blast
    from a have "wheelSelect_value form \<notin> set (map wheelId sales)"
      by (auto simp add: list_ex_iff)
    with d n have "distinct (map wheelId (sales @ [new]))" by simp
    with l' show ?thesis by (simp add: one_sale_per_wheel_def)
  qed
qed

lemma handleFileImport_object:
  assumes "confirm q_import"
  shows "handleFileImport confirm (Some (Doc (BObject w s d))) st =
           Returned
             ((if is_list s then saveSales (elements s) else (\<lambda>x. x))
                ((if is_list w then saveWheels (elements w) else (\<lambda>x. x)) st))
             [Confirm q_import, Alert ''Data imported successfully'']"
  using assms by (simp add: handleFileImport_def Let_def)

lemma handleFileImport_sales_list:
  assumes "confirm q_import"
  shows "loadSales (storage (handleFileImport confirm
            (Some (Doc (BObject w (Some (Array sales)) d))) st)) = Inr (Array sales)"
  using assms by (simp add: handleFileImport_object is_list_def loadSales_saveSales)

lemma handleFileImport_sales_kept:
  assumes "\<not> is_list s"
  shows "loadSales (storage (handleFileImport confirm (Some (Doc (BObject w s d))) st))
           = loadSales st"
  using assms
  by (cases "confirm q_import")
     (simp_all add: handleFileImport_object loadSales_saveWheels, simp add: handleFileImport_def)

text \<open>
  C1, amended. \<^verbatim>\<open>handleSaleSubmit\<close> keeps the invariant: when no two stored sales have the
  same wheel before, none have after, whatever the form. \<^verbatim>\<open>handleFileImport\<close> checks nothing
  of the kind: once the user has agreed, a \<^verbatim>\<open>sales\<close> property that is an array becomes the
  stored sales as it is, so the invariant holds afterwards exactly when it holds of the
  imported array; with any other \<^verbatim>\<open>sales\<close> property the stored sales stay as they were.
\<close>

theorem sale_invariant_kept_by_sale_copied_by_import:
  "(one_sale_per_wheel st \<longrightarrow> one_sale_per_wheel (storage (handleSaleSubmit newId form st))) \<and>
   (confirm q_import \<longrightarrow>
      one_sale_per_wheel (storage (handleFileImport confirm
          (Some (Doc (BObject w (Some (Array sales)) d))) st'))
        = distinct (map wheelId sales)) \<and>
   (\<not> is_list s \<longrightarrow>
      one_sale_per_wheel (storage (handleFileImport confirm (Some (Doc (BObject w s d))) st'))
        = one_sale_per_wheel st')"
proof (intro conjI impI)
  assume "one_sale_per_wheel st"
  then show "one_sale_per_wheel (storage (handleSaleSubmit newId form st))"
    by (rule handleSaleSubmit_keeps_invariant)
next
  assume "confirm q_import"
  then show "one_sale_per_wheel (storage (handleFileImport confirm
          (Some (Doc (BObject w (Some (Array sales)) d))) st'))
        = distinct (map wheelId sales)"
    by (simp add: handleFileImport_sales_list one_sale_per_wheel_def)
next
  assume "\<not> is_list s"
  then show "one_sale_per_wheel (storage (handleFileImport confirm (Some (Doc (BObject w s d))) st'))
        = one_sale_per_wheel st'"
    by (simp add: handleFileImport_sales_kept one_sale_per_wheel_def)
qed

lemma demo_invariant: "one_sale_per_wheel demo"
  by (simp add: one_sale_per_wheel_def demo_def seedDemoData_def loadSales_saveSales)

theorem sale_invariant_witness:
  "one_sale_per_wheel demo \<and>
   one_sale_per_wheel (storage (handleSaleSubmit ''sale_1700000000500_k3x9q2m1a'' demo_free_form demo)) \<and>
   one_sale_per_wheel (storage (handleFileImport (\<lambda>q. True)
       (Some (Doc (BObject None (Some (Array [hd twice_sold])) None))) demo)) \<and>
   one_sale_per_wheel (storage (handleFileImport (\<lambda>q. True)
       (Some (Doc (BObject None (Some (NotArray Null)) None))) demo))"
  using sale_invariant_kept_by_sale_copied_by_import
     [of demo "''sale_1700000000500_k3x9q2m1a''" demo_free_form "\<lambda>q. True" None
         "[hd twice_sold]" None demo "Some (NotArray Null)"]
     demo_invariant
  by (simp add: is_list_def)

text \<open>
  C1 as the specification states it fails for the import: a backup whose \<^verbatim>\<open>sales\<close> array
  holds two sales of one wheel is stored as it is.
\<close>

theorem import_duplicate_sales_counterexample:
  "\<not> one_sale_per_wheel (storage (handleFileImport (\<lambda>q. True)
       (Some (Doc (BObject None (Some (Array twice_sold)) None))) (demo :: (wheel, sale) localStorage)))"
  by (simp add: handleFileImport_def is_list_def one_sale_per_wheel_def loadSales_saveSales
        twice_sold_def Let_def)

subsection \<open>Deleting a wheel\<close>

text \<open>
  C3. The user has agreed to delete the wheel, and some stored sale has it. When the user
  then declines the second question, \<^verbatim>\<open>deleteWheel\<close> has asked it (that dialog is the
  request for the confirmation of the cascade) and ends with the storage it started from.
  When the user agrees, the sales of the wheel are removed and saved first, then the wheels
  with that id are removed and saved; all other records stay, in their order.
\<close>

theorem deleteWheel_sold_wheel:
  assumes "loadWheels st = Inr (Array wheels)"
    and "loadSales st = Inr (Array sales)"
    and "list_ex (\<lambda>sale. wheelId sale = wid) sales"
    and "confirm q_delete"
  shows "(\<not> confirm q_cascade \<longrightarrow>
            deleteWheel confirm wid st = Returned st [Confirm q_delete, Confirm q_cascade]) \<and>
         (confirm q_cascade \<longrightarrow>
            deleteWheel confirm wid st =
              Returned
                (saveWheels (filter (\<lambda>w. wheel_id w \<noteq> wid) wheels)
                   (saveSales (filter (\<lambda>sale. wheelId sale \<noteq> wid) sales) st))
                [Confirm q_delete, Confirm q_cascade, Alert ''Wheel deleted successfully''] \<and>
            loadWheels (storage (deleteWheel confirm wid st))
              = Inr (Array (filter (\<lambda>w. wheel_id w \<noteq> wid) wheels)) \<and>
            loadSales (storage (deleteWheel confirm wid st))
              = Inr (Array (filter (\<lambda>sale. wheelId sale \<noteq> wid) sales)))"
  using assms
  by (simp add: deleteWheel_def Let_def loadWheels_saveWheels loadSales_saveWheels
        loadSales_saveSales)


lemma demo_loadWheels:
  "\<exists>w1 w2 w3 w4. loadWheels demo = Inr (Array [w1, w2, w3, w4]) \<and>
     wheel_id w1 = ''wheel_1700000000000_1'' \<and> wheel_id w2 = ''wheel_1700000000000_2'' \<and>
     wheel_id w3 = ''wheel_1700000000000_3'' \<and> wheel_id w4 = ''wheel_1700000000000_4''"
  by (simp add: demo_def seedDemoData_def loadWheels_saveWheels loadWheels_saveSales)

theorem deleteWheel_sold_wheel_witness:
  "deleteWheel (\<lambda>q. q = q_delete) ''wheel_1700000000000_1'' demo
     = Returned demo [Confirm q_delete, Confirm q_cascade] \<and>
   (case loadWheels (storage (deleteWheel (\<lambda>q. True) ''wheel_1700000000000_1'' demo)) of
      Inr (Array ws) \<Rightarrow> map wheel_id ws =
        [''wheel_1700000000000_2'', ''wheel_1700000000000_3'', ''wheel_1700000000000_4'']
    | _ \<Rightarrow> False) \<and>
   (case loadSales (storage (deleteWheel (\<lambda>q. True) ''wheel_1700000000000_1'' demo)) of
      Inr (Array ss) \<Rightarrow> map wheelId ss = [''wheel_1700000000000_2'']
    | _ \<Rightarrow> False)"
proof -
  obtain s1 s2 where l: "loadSales demo = Inr (Array [s1, s2])"
    and s: "wheelId s1 = ''wheel_1700000000000_1''" "wheelId s2 = ''wheel_1700000000000_2''"
    using demo_loadSales by blast
  obtain w1 w2 w3 w4 where lw: "loadWheels demo = Inr (Array [w1, w2, w3, w4])"
    and w: "wheel_id w1 = ''wheel_1700000000000_1''" "wheel_id w2 = ''wheel_1700000000000_2''"
      "wheel_id w3 = ''wheel_1700000000000_3''" "wheel_id w4 = ''wheel_1700000000000_4''"
    using demo_loadWheels by blast
  have ex: "list_ex (\<lambda>sale. wheelId sale = ''wheel_1700000000000_1'') [s1, s2]"
    using s by simp
  have ne: "q_cascade \<noteq> q_delete" by (simp add: q_cascade_def q_delete_def)
  from deleteWheel_sold_wheel [OF lw l ex, of "\<lambda>q. q = q_delete"]
       deleteWheel_sold_wheel [OF lw l ex, of "\<lambda>q. True"] ne s w
  show ?thesis
    by (simp add: loadWheels_saveWheels loadSales_saveWheels loadSales_saveSales)
qed

subsection \<open>A wheel that is not stored\<close>

lemma findIndex_None: "findIndex P xs = None \<longleftrightarrow> \<not> list_ex P xs"
  by (induction xs) auto

lemma filter_absent: "\<not> list_ex P xs \<Longrightarrow> filter (\<lambda>x. \<not> P x) xs = xs"
  by (induction xs) auto

lemma handleWheelSubmit_absent:
  assumes "loadWheels st = Inr (Array wheels)"
    and "\<not> list_ex (\<lambda>w. wheel_id w = wheelId_value form) wheels"
    and "wheelId_value form \<noteq> []" and "editing \<noteq> None" and "editing \<noteq> Some []"
  shows "(\<exists>msg. handleWheelSubmit editing newId today form st = Returned st [Alert msg] \<and>
            msg \<noteq> ''Wheel updated successfully'' \<and> \<not> wheel_fields_valid form) \<or>
         (handleWheelSubmit editing newId today form st = Returned st [] \<and>
            wheel_fields_valid form)"
proof -
  have "findIndex (\<lambda>w. wheel_id w = wheelId_value form) wheels = None"
    using assms(2) by (simp add: findIndex_None)
  with assms show ?thesis
    by (auto simp add: handleWheelSubmit_def wheel_fields_valid_def split: option.splits)
qed

lemma deleteWheel_absent_wheels:
  assumes "loadWheels st = Inr (Array wheels)"
    and "\<not> list_ex (\<lambda>w. wheel_id w = wid) wheels"
  shows "loadWheels (storage (deleteWheel confirm wid st)) = Inr (Array wheels)"
  using assms filter_absent [of "\<lambda>w. wheel_id w = wid" wheels]
  by (auto simp add: deleteWheel_def Let_def loadWheels_saveWheels loadWheels_saveSales
        split: sum.splits jsvalue.splits)

lemma deleteWheel_unsold_sales:
  assumes "loadSales st = Inr (Array sales)"
    and "\<not> list_ex (\<lambda>sale. wheelId sale = wid) sales"
  shows "threeWheel_sales (storage (deleteWheel confirm wid st)) = threeWheel_sales st"
  using assms
  by (auto simp add: deleteWheel_def Let_def saveWheels_def split: sum.splits jsvalue.splits)

lemma handleWheelSubmit_absent_exact:
  assumes "loadWheels st = Inr (Array wheels)"
    and "\<not> list_ex (\<lambda>w. wheel_id w = wheelId_value form) wheels"
    and "wheelId_value form \<noteq> []" and "editing \<noteq> None" and "editing \<noteq> Some []"
  shows "handleWheelSubmit editing newId today form st =
           Returned st (case wheel_field_error form of Some msg \<Rightarrow> [Alert msg] | None \<Rightarrow> [])"
proof -
  have "findIndex (\<lambda>w. wheel_id w = wheelId_value form) wheels = None"
    using assms(2) by (simp add: findIndex_None)
  with assms show ?thesis
    by (simp add: handleWheelSubmit_def wheel_field_error_def)
qed

text \<open>
  C5, amended. The id is that of no stored wheel. An update for it, that is
  \<^verbatim>\<open>handleWheelSubmit\<close> with this id in the hidden field while a wheel is being edited,
  leaves the storage as it is and does not report an update: a form that fails a check of
  the fields gets the message of the first check it fails, and a form that passes them all
  gets no dialog at all. \<^verbatim>\<open>deleteWheel\<close> for it leaves the stored wheels the same records in
  the same order, and when no stored sale has the id it leaves the stored sales untouched.
\<close>

theorem absent_wheel_update_delete:
  assumes "loadWheels st = Inr (Array wheels)"
    and "\<not> list_ex (\<lambda>w. wheel_id w = wid) wheels"
  shows "(wheelId_value form = wid \<and> wid \<noteq> [] \<and> editing \<noteq> None \<and> editing \<noteq> Some [] \<longrightarrow>
            storage (handleWheelSubmit editing newId today form st) = st \<and>
            Alert ''Wheel updated successfully''
              \<notin> set (dialogs (handleWheelSubmit editing newId today form st)) \<and>
            (wheel_fields_valid form \<longrightarrow>
               handleWheelSubmit editing newId today form st = Returned st []) \<and>
            handleWheelSubmit editing newId today form st =
              Returned st
                (case wheel_field_error form of Some msg \<Rightarrow> [Alert msg] | None \<Rightarrow> [])) \<and>
         wheel_fields_valid form = (wheel_field_error form = None) \<and>
         loadWheels (storage (deleteWheel confirm wid st)) = Inr (Array wheels) \<and>
         (loadSales st = Inr (Array sales) \<and> \<not> list_ex (\<lambda>sale. wheelId sale = wid) sales \<longrightarrow>
            threeWheel_sales (storage (deleteWheel confirm wid st)) = threeWheel_sales st)"
proof (intro conjI impI)
  assume a: "wheelId_value form = wid \<and> wid \<noteq> [] \<and> editing \<noteq> None \<and> editing \<noteq> Some []"
  with assms have c: "(\<exists>msg. handleWheelSubmit editing newId today form st = Returned st [Alert msg] \<and>
            msg \<noteq> ''Wheel updated successfully'' \<and> \<not> wheel_fields_valid form) \<or>
         (handleWheelSubmit editing newId today form st = Returned st [] \<and>
            wheel_fields_valid form)"
    by (intro handleWheelSubmit_absent) auto
  from c show "storage (handleWheelSubmit editing newId today form st) = st" by auto
  from c show "Alert ''Wheel updated successfully''
              \<notin> set (dialogs (handleWheelSubmit editing newId today form st))" by auto
  from a assms show "handleWheelSubmit editing newId today form st =
              Returned st
                (case wheel_field_error form of Some msg \<Rightarrow> [Alert msg] | None \<Rightarrow> [])"
    by (intro handleWheelSubmit_absent_exact) auto
  assume "wheel_fields_valid form"
  with c show "handleWheelSubmit editing newId today form st = Returned st []" by auto
next
  show "wheel_fields_valid form = (wheel_field_error form = None)"
    by (auto simp add: wheel_fields_valid_def wheel_field_error_def split: option.splits)
next
  from assms show "loadWheels (storage (deleteWheel confirm wid st)) = Inr (Array wheels)"
    by (rule deleteWheel_absent_wheels)
next
  assume "loadSales st = Inr (Array sales) \<and> \<not> list_ex (\<lambda>sale. wheelId sale = wid) sales"
  then show "threeWheel_sales (storage (deleteWheel confirm wid st)) = threeWheel_sales st"
    using deleteWheel_unsold_sales by blast
qed

theorem absent_wheel_update_delete_witness:
  "handleWheelSubmit (Some ''wheel_ghost'') ''wheel_1700000000900_zz'' ''2024-05-06''
      demo_ghost_form demo = Returned demo [] \<and>
   handleWheelSubmit (Some ''wheel_ghost'') ''wheel_1700000000900_zz'' ''2024-05-06''
      (demo_ghost_form\<lparr>model_value := [CHR 0xA0]\<rparr>) demo
     = Returned demo [Alert ''Model is required''] \<and>
   handleWheelSubmit (Some ''wheel_ghost'') ''wheel_1700000000900_zz'' ''2024-05-06''
      (demo_ghost_form\<lparr>year_value := Some 1899\<rparr>) demo
     = Returned demo [Alert ''Please enter a valid year''] \<and>
   loadWheels (storage (deleteWheel (\<lambda>q. True) ''wheel_ghost'' demo)) = loadWheels demo \<and>
   threeWheel_sales (storage (deleteWheel (\<lambda>q. True) ''wheel_ghost'' demo))
     = threeWheel_sales demo"
proof -
  obtain s1 s2 where l: "loadSales demo = Inr (Array [s1, s2])"
    and s: "wheelId s1 = ''wheel_1700000000000_1''" "wheelId s2 = ''wheel_1700000000000_2''"
    using demo_loadSales by blast
  obtain w1 w2 w3 w4 where lw: "loadWheels demo = Inr (Array [w1, w2, w3, w4])"
    and w: "wheel_id w1 = ''wheel_1700000000000_1''" "wheel_id w2 = ''wheel_1700000000000_2''"
      "wheel_id w3 = ''wheel_1700000000000_3''" "wheel_id w4 = ''wheel_1700000000000_4''"
    using demo_loadWheels by blast
  have nw: "\<not> list_ex (\<lambda>w. wheel_id w = ''wheel_ghost'') [w1, w2, w3, w4]"
    using w by simp
  have ns: "\<not> list_ex (\<lambda>sale. wheelId sale = ''wheel_ghost'') [s1, s2]"
    using s by simp
  have v: "wheel_fields_valid demo_ghost_form"
    by (simp add: wheel_fields_valid_def demo_ghost_form_def trim_def is_space_def)
  have e1: "wheel_field_error (demo_ghost_form\<lparr>model_value := [CHR 0xA0]\<rparr>)
              = Some ''Model is required''"
    by (simp add: wheel_field_error_def demo_ghost_form_def trim_def is_space_def)
  have e2: "wheel_field_error (demo_ghost_form\<lparr>year_value := Some 1899\<rparr>)
              = Some ''Please enter a valid year''"
    by (simp add: wheel_field_error_def demo_ghost_form_def trim_def is_space_def)
  from absent_wheel_update_delete [OF lw nw, of demo_ghost_form "Some ''wheel_ghost''"
         "''wheel_1700000000900_zz''" "''2024-05-06''" "\<lambda>q. True" "[s1, s2]"]
       absent_wheel_update_delete [OF lw nw, of "demo_ghost_form\<lparr>model_value := [CHR 0xA0]\<rparr>"
         "Some ''wheel_ghost''" "''wheel_1700000000900_zz''" "''2024-05-06''" "\<lambda>q. True"
         "[s1, s2]"]
       absent_wheel_update_delete [OF lw nw, of "demo_ghost_form\<lparr>year_value := Some 1899\<rparr>"
         "Some ''wheel_ghost''" "''wheel_1700000000900_zz''" "''2024-05-06''" "\<lambda>q. True"
         "[s1, s2]"]
       l ns v e1 e2 lw
  show ?thesis by (simp add: demo_ghost_form_def)
qed

lemma loadWheels_no_data: "loadWheels no_data = Inr (Array [])"
  by (simp add: loadWheels_def no_data_def)

lemma loadSales_no_data: "loadSales no_data = Inr (Array [])"
  by (simp add: loadSales_def no_data_def)

text \<open>
  C5 as the specification states it fails. With no wheel stored and one sale of the wheel
  "wheel_ghost": the update of that wheel ends without any dialog, and \<^verbatim>\<open>deleteWheel\<close>
  for it, once the user has agreed twice, removes the sale and reports success.
\<close>

theorem absent_wheel_counterexample:
  "handleWheelSubmit (Some ''wheel_ghost'') ''wheel_1700000000900_zz'' ''2024-05-06''
      demo_ghost_form (saveSales [ghost_sale] no_data)
     = Returned (saveSales [ghost_sale] no_data) [] \<and>
   deleteWheel (\<lambda>q. True) ''wheel_ghost'' (saveSales [ghost_sale] no_data)
     = Returned (saveWheels [] (saveSales [] (saveSales [ghost_sale] no_data)))
         [Confirm q_delete, Confirm q_cascade, Alert ''Wheel deleted successfully''] \<and>
   loadWheels (saveSales [ghost_sale] no_data :: (wheel, sale) localStorage) = Inr (Array []) \<and>
   loadSales (saveSales [ghost_sale] no_data :: (wheel, sale) localStorage)
     = Inr (Array [ghost_sale]) \<and>
   loadSales (storage (deleteWheel (\<lambda>q. True) ''wheel_ghost'' (saveSales [ghost_sale] no_data)))
     = Inr (Array [])"
  by (simp add: handleWheelSubmit_def deleteWheel_def demo_ghost_form_def ghost_sale_def
        trim_def is_space_def loadWheels_saveSales loadSales_saveSales loadSales_saveWheels
        loadWheels_no_data Let_def)

subsection \<open>The report\<close>

lemma foldl_add_sum_list:
  "foldl (\<lambda>sum item. sum + f item) a xs = a + sum_list (map f xs)" for a :: real
  by (induction xs arbitrary: a) simp_all

lemma renderReport_loaded:
  assumes "loadSales st = Inr (Array sales)" and "loadWheels st = Inr (Array wheels)"
  shows "renderReport fromDate toDate st =
           (let rows = map (enrich wheels) (filter (in_range fromDate toDate) sales) in
            Inr (rows,
                 if rows = [] then None
                 else Some \<lparr>count = length rows,
                            totalRevenue = sum_list (map (\<lambda>r. sellingPrice (row_sale r)) rows),
                            totalCost = sum_list (map row_purchasePrice rows),
                            totalProfit = sum_list (map (\<lambda>r. sellingPrice (row_sale r)) rows)
                                          - sum_list (map row_purchasePrice rows)\<rparr>))"
proof -
  have f: "(if toDate \<noteq> []
            then filter (\<lambda>sale. saleDate sale \<le> toDate)
                   (if fromDate \<noteq> [] then filter (\<lambda>sale. saleDate sale \<ge> fromDate) sales
                    else sales)
            else (if fromDate \<noteq> [] then filter (\<lambda>sale. saleDate sale \<ge> fromDate) sales
                  else sales))
           = filter (in_range fromDate toDate) sales"
    by (auto simp add: in_range_def intro: filter_cong)
  show ?thesis
    using assms
    by (simp add: renderReport_def Let_def f foldl_add_sum_list del: filter_filter)
qed

lemma row_sale_enrich: "row_sale (enrich wheels sale) = sale"
  by (simp add: enrich_def Let_def)

text \<open>
  C6. With both collections stored as arrays, \<^verbatim>\<open>renderReport\<close> returns rows whose sales are
  exactly the stored sales with \<open>fromDate \<le> saleDate \<le> toDate\<close> in the lexicographic order
  of strings, a bound counting only when it is given (not empty), and the rows are in the
  order of the stored sales: the list of the rows' sales is the filtered list itself.
\<close>

theorem report_rows_are_filtered_sales:
  assumes "loadSales st = Inr (Array sales)" and "loadWheels st = Inr (Array wheels)"
  shows "\<exists>rows total. renderReport fromDate toDate st = Inr (rows, total) \<and>
           map row_sale rows =
             filter (\<lambda>sale. (fromDate = [] \<or> fromDate \<le> saleDate sale) \<and>
                             (toDate = [] \<or> saleDate sale \<le> toDate)) sales"
proof -
  have "map row_sale (map (enrich wheels) (filter (in_range fromDate toDate) sales))
          = filter (in_range fromDate toDate) sales"
    by (simp add: comp_def row_sale_enrich)
  then show ?thesis
    using renderReport_loaded [OF assms, of fromDate toDate]
    by (simp add: Let_def in_range_def [abs_def])
qed

lemma demo_loaded:
  "\<exists>s1 s2 w1 w2 w3 w4.
     loadSales demo = Inr (Array [s1, s2]) \<and> loadWheels demo = Inr (Array [w1, w2, w3, w4]) \<and>
     saleDate s1 = ''2024-02-01'' \<and> saleDate s2 = ''2024-03-15'' \<and>
     sale_id s1 = ''sale_1700000000000_1'' \<and> sale_id s2 = ''sale_1700000000000_2''"
  by (simp add: demo_def seedDemoData_def loadSales_saveSales loadWheels_saveWheels
        loadWheels_saveSales)

theorem report_rows_are_filtered_sales_witness:
  "(case renderReport ''2024-03-01'' ''2024-03-31'' demo of
      Inr (rows, sm) \<Rightarrow> map (sale_id \<circ> row_sale) rows = [''sale_1700000000000_2'']
    | Inl e \<Rightarrow> False) \<and>
   (case renderReport [] ''2024-02-29'' demo of
      Inr (rows, sm) \<Rightarrow> map (sale_id \<circ> row_sale) rows = [''sale_1700000000000_1'']
    | Inl e \<Rightarrow> False) \<and>
   (case renderReport [] [] demo of
      Inr (rows, sm) \<Rightarrow>
        map (sale_id \<circ> row_sale) rows = [''sale_1700000000000_1'', ''sale_1700000000000_2'']
    | Inl e \<Rightarrow> False)"
proof -
  obtain s1 s2 w1 w2 w3 w4 where l: "loadSales demo = Inr (Array [s1, s2])"
    and lw: "loadWheels demo = Inr (Array [w1, w2, w3, w4])"
    and d: "saleDate s1 = ''2024-02-01''" "saleDate s2 = ''2024-03-15''"
    and i: "sale_id s1 = ''sale_1700000000000_1''" "sale_id s2 = ''sale_1700000000000_2''"
    using demo_loaded by blast
  from report_rows_are_filtered_sales [OF l lw, of "''2024-03-01''" "''2024-03-31''"]
       report_rows_are_filtered_sales [OF l lw, of "[]" "''2024-02-29''"]
       report_rows_are_filtered_sales [OF l lw, of "[]" "[]"]
       d i
  show ?thesis by (auto simp add: map_eq_Cons_conv)
qed

lemma find_wheel_cases:
  "(case find P wheels of
      Some w \<Rightarrow> w \<in> set wheels \<and> P w
    | None \<Rightarrow> \<not> list_ex P wheels)"
  by (induction wheels) (auto split: option.splits)

lemma enrich_join:
  "(case find (\<lambda>w. wheel_id w = wheelId sale) wheels of
      Some w \<Rightarrow> row_model (enrich wheels sale) = model w \<and>
                row_purchasePrice (enrich wheels sale) = purchasePrice w
    | None \<Rightarrow> row_model (enrich wheels sale) = ''Unknown'' \<and>
              row_purchasePrice (enrich wheels sale) = 0) \<and>
   row_profit (enrich wheels sale)
     = sellingPrice (row_sale (enrich wheels sale)) - row_purchasePrice (enrich wheels sale)"
  by (simp add: enrich_def Let_def split: option.split)

text \<open>
  C7. With both collections stored as arrays, the rows of \<^verbatim>\<open>renderReport\<close> correspond one to
  one, in order, to the sales of the report, and the row of a sale carries the sale and:
  when a stored wheel has the sale's \<^verbatim>\<open>wheelId\<close>, the model and the purchase price of the
  first such wheel; when none has, the model "Unknown" and the purchase price 0. In both
  cases its profit is the selling price minus that purchase price. The function returns
  its rows (it raises nothing) whether or not the wheels of the sales are stored.
\<close>

theorem report_row_joins_wheel:
  assumes "loadSales st = Inr (Array sales)" and "loadWheels st = Inr (Array wheels)"
  shows "\<exists>rows sm. renderReport fromDate toDate st = Inr (rows, sm) \<and>
           list_all2
             (\<lambda>sale row.
                row_sale row = sale \<and>
                (case find (\<lambda>w. wheel_id w = wheelId sale) wheels of
                   Some w \<Rightarrow> w \<in> set wheels \<and> wheel_id w = wheelId sale \<and>
                             row_model row = model w \<and>
                             row_purchasePrice row = purchasePrice w
                 | None \<Rightarrow> \<not> list_ex (\<lambda>w. wheel_id w = wheelId sale) wheels \<and>
                           row_model row = ''Unknown'' \<and> row_purchasePrice row = 0) \<and>
                row_profit row = sellingPrice sale - row_purchasePrice row)
             (filter (\<lambda>sale. (fromDate = [] \<or> fromDate \<le> saleDate sale) \<and>
                              (toDate = [] \<or> saleDate sale \<le> toDate)) sales)
             rows"
proof -
  have "row_sale (enrich wheels sale) = sale \<and>
        (case find (\<lambda>w. wheel_id w = wheelId sale) wheels of
           Some w \<Rightarrow> w \<in> set wheels \<and> wheel_id w = wheelId sale \<and>
                     row_model (enrich wheels sale) = model w \<and>
                     row_purchasePrice (enrich wheels sale) = purchasePrice w
         | None \<Rightarrow> \<not> list_ex (\<lambda>w. wheel_id w = wheelId sale) wheels \<and>
                   row_model (enrich wheels sale) = ''Unknown'' \<and>
                   row_purchasePrice (enrich wheels sale) = 0) \<and>
        row_profit (enrich wheels sale) = sellingPrice sale - row_purchasePrice (enrich wheels sale)"
    for sale
    using enrich_join [where sale = sale and wheels = wheels]
          find_wheel_cases [of "\<lambda>w. wheel_id w = wheelId sale" wheels]
    by (simp add: row_sale_enrich split: option.splits)
  then show ?thesis
    using renderReport_loaded [OF assms, of fromDate toDate]
    by (simp add: Let_def list_all2_map2 list_all2_same in_range_def [abs_def])
qed

lemma demo_wheels_prices:
  "\<exists>w1 w2 w3 w4. loadWheels demo = Inr (Array [w1, w2, w3, w4]) \<and>
     wheel_id w1 = ''wheel_1700000000000_1'' \<and> wheel_id w2 = ''wheel_1700000000000_2'' \<and>
     wheel_id w3 = ''wheel_1700000000000_3'' \<and> wheel_id w4 = ''wheel_1700000000000_4'' \<and>
     model w1 = ''Bajaj Auto Rickshaw'' \<and> model w2 = ''Mahindra Alfa'' \<and>
     purchasePrice w1 = 85000 \<and> purchasePrice w2 = 92000"
  by (simp add: demo_def seedDemoData_def loadWheels_saveWheels loadWheels_saveSales)

lemma demo_sales_prices:
  "\<exists>s1 s2. loadSales demo = Inr (Array [s1, s2]) \<and>
     wheelId s1 = ''wheel_1700000000000_1'' \<and> wheelId s2 = ''wheel_1700000000000_2'' \<and>
     sellingPrice s1 = 95000 \<and> sellingPrice s2 = 105000"
  by (simp add: demo_def seedDemoData_def loadSales_saveSales)

theorem report_row_joins_wheel_witness:
  "(case renderReport [] [] demo of
      Inr (rows, sm) \<Rightarrow>
        map row_model rows = [''Bajaj Auto Rickshaw'', ''Mahindra Alfa''] \<and>
        map row_purchasePrice rows = [85000, 92000] \<and>
        map row_profit rows = [10000, 13000]
    | Inl e \<Rightarrow> False) \<and>
   (case renderReport [] [] dangling of
      Inr (rows, sm) \<Rightarrow>
        map row_model rows = [''Unknown''] \<and> map row_purchasePrice rows = [0] \<and>
        map row_profit rows = [80000]
    | Inl e \<Rightarrow> False)"
proof -
  obtain s1 s2 where l: "loadSales demo = Inr (Array [s1, s2])"
    and s: "wheelId s1 = ''wheel_1700000000000_1''" "wheelId s2 = ''wheel_1700000000000_2''"
      "sellingPrice s1 = 95000" "sellingPrice s2 = 105000"
    using demo_sales_prices by blast
  obtain w1 w2 w3 w4 where lw: "loadWheels demo = Inr (Array [w1, w2, w3, w4])"
    and w: "wheel_id w1 = ''wheel_1700000000000_1''" "wheel_id w2 = ''wheel_1700000000000_2''"
      "wheel_id w3 = ''wheel_1700000000000_3''" "wheel_id w4 = ''wheel_1700000000000_4''"
      "model w1 = ''Bajaj Auto Rickshaw''" "model w2 = ''Mahindra Alfa''"
      "purchasePrice w1 = 85000" "purchasePrice w2 = 92000"
    using demo_wheels_prices by blast
  have ld: "loadSales dangling = Inr (Array [ghost_sale])"
    by (simp add: dangling_def loadSales_saveSales)
  have lwd: "loadWheels dangling = Inr (Array [w1, w2, w3, w4])"
    using lw by (simp add: dangling_def loadWheels_saveSales)
  have g: "wheelId ghost_sale = ''wheel_ghost''" "sellingPrice ghost_sale = 80000"
    by (simp_all add: ghost_sale_def)
  from report_row_joins_wheel [OF l lw, of "[]" "[]"]
       report_row_joins_wheel [OF ld lwd, of "[]" "[]"]
       s w g
  show ?thesis
    by (auto simp add: list_all2_Cons1)
qed

text \<open>
  C8, amended. With both collections stored as arrays and no date chosen, \<^verbatim>\<open>renderReport\<close>
  returns one row for each stored sale, in order. When there is at least one sale, the
  totals are computed: the count is the number of rows, the revenue and the cost are the
  sums of the selling prices and of the purchase prices of the rows, and the profit is the
  revenue minus the cost. When there is no sale, the function returns before the totals
  (line 639): there are no rows and no totals.
\<close>

theorem report_without_bounds:
  assumes "loadSales st = Inr (Array sales)" and "loadWheels st = Inr (Array wheels)"
  shows "\<exists>rows sm. renderReport [] [] st = Inr (rows, sm) \<and>
           map row_sale rows = sales \<and>
           (sales = [] \<longrightarrow> sm = None) \<and>
           (sales \<noteq> [] \<longrightarrow>
              (\<exists>t. sm = Some t \<and> count t = length rows \<and>
                 totalRevenue t = sum_list (map (\<lambda>row. sellingPrice (row_sale row)) rows) \<and>
                 totalCost t = sum_list (map row_purchasePrice rows) \<and>
                 totalProfit t = totalRevenue t - totalCost t))"
  using renderReport_loaded [OF assms, of "[]" "[]"]
  by (simp add: Let_def in_range_def comp_def row_sale_enrich)

theorem report_without_bounds_witness:
  "(case renderReport [] [] demo of
      Inr (rows, Some t) \<Rightarrow>
        map (wheelId \<circ> row_sale) rows = [''wheel_1700000000000_1'', ''wheel_1700000000000_2''] \<and>
        count t = 2 \<and> totalRevenue t = 200000 \<and> totalProfit t = 200000 - totalCost t
    | _ \<Rightarrow> False) \<and>
   renderReport [] [] (saveSales [] demo) = Inr ([], None)"
proof -
  obtain s1 s2 where l: "loadSales demo = Inr (Array [s1, s2])"
    and s: "wheelId s1 = ''wheel_1700000000000_1''" "wheelId s2 = ''wheel_1700000000000_2''"
      "sellingPrice s1 = 95000" "sellingPrice s2 = 105000"
    using demo_sales_prices by blast
  obtain w1 w2 w3 w4 where lw: "loadWheels demo = Inr (Array [w1, w2, w3, w4])"
    using demo_loadWheels by blast
  have le: "loadSales (saveSales [] demo) = Inr (Array [])"
    by (simp add: loadSales_saveSales)
  have lwe: "loadWheels (saveSales [] demo) = Inr (Array [w1, w2, w3, w4])"
    using lw by (simp add: loadWheels_saveSales)
  obtain rows t where r: "renderReport [] [] demo = Inr (rows, Some t)"
    and m: "map row_sale rows = [s1, s2]" and c: "count t = length rows"
    and tr: "totalRevenue t = sum_list (map (\<lambda>row. sellingPrice (row_sale row)) rows)"
    and tp: "totalProfit t = totalRevenue t - totalCost t"
    using report_without_bounds [OF l lw] by auto
  from m obtain r1 r2 where rw: "rows = [r1, r2]" "row_sale r1 = s1" "row_sale r2 = s2"
    by (auto simp add: map_eq_Cons_conv)
  have e: "renderReport [] [] (saveSales [] demo) = Inr ([], None)"
    using report_without_bounds [OF le lwe] by auto
  show ?thesis
    using r rw c tr tp s e by simp
qed

text \<open>
  C8 as the specification states it fails for the empty collection: no totals are
  computed, neither with no key set nor with two empty arrays stored.
\<close>

theorem report_empty_counterexample:
  "renderReport [] [] no_data = Inr ([], None) \<and>
   renderReport [] [] (saveSales [] (saveWheels [] no_data)) = Inr ([], None)"
  by (simp add: renderReport_def loadSales_saveSales loadWheels_saveSales loadWheels_saveWheels
        loadSales_no_data loadWheels_no_data)

subsection \<open>Backup and restore\<close>

lemma handleFileImport_returns:
  "\<exists>st' ds. handleFileImport confirm file st = Returned st' ds"
  by (simp add: handleFileImport_def Let_def split: option.split sum.split)

lemma handleFileImport_not_object:
  assumes "data_wheels data = Inr None" and "data_sales data = Inr None"
  shows "storage (handleFileImport confirm (Some (Doc data)) st) = st"
  using assms by (simp add: handleFileImport_def Let_def is_list_def)

text \<open>
  C9. The user has agreed to the import. For a file that holds an object, the stored wheels
  become the \<^verbatim>\<open>wheels\<close> property when that property is an array, and stay what they were
  when it is absent or anything else; the same holds, independently, of the stored sales
  and the \<^verbatim>\<open>sales\<close> property; the current sale is not touched. A file that is empty or
  not JSON, and the file \<^verbatim>\<open>null\<close>, end in the alert of failure with the storage as it was;
  a boolean, a number, a string or an array leaves the storage as it was. In every case
  the handler returns: no exception leaves it.
\<close>

theorem import_replaces_lists_only:
  assumes "confirm q_import"
  shows "(let st' = storage (handleFileImport confirm (Some (Doc (BObject w s d))) st) in
            threeWheel_items st' =
              (case w of Some (Array wheels) \<Rightarrow> Some (JSON_stringify (Array wheels))
                       | _ \<Rightarrow> threeWheel_items st) \<and>
            threeWheel_sales st' =
              (case s of Some (Array sales) \<Rightarrow> Some (JSON_stringify (Array sales))
                       | _ \<Rightarrow> threeWheel_sales st) \<and>
            threeWheel_currentSale st' = threeWheel_currentSale st) \<and>
         handleFileImport confirm (Some Malformed) st = Returned st [import_failed] \<and>
         handleFileImport confirm (Some Empty) st = Returned st [import_failed] \<and>
         handleFileImport confirm (Some (Doc BNull)) st
           = Returned st [Confirm q_import, import_failed] \<and>
         storage (handleFileImport confirm (Some (Doc (BBoolean b))) st) = st \<and>
         storage (handleFileImport confirm (Some (Doc (BNumber n))) st) = st \<and>
         storage (handleFileImport confirm (Some (Doc (BString t))) st) = st \<and>
         storage (handleFileImport confirm (Some (Doc BArray)) st) = st \<and>
         (\<exists>st' ds. handleFileImport confirm file st = Returned st' ds)"
proof -
  have obj: "(let st' = storage (handleFileImport confirm (Some (Doc (BObject w s d))) st) in
            threeWheel_items st' =
              (case w of Some (Array wheels) \<Rightarrow> Some (JSON_stringify (Array wheels))
                       | _ \<Rightarrow> threeWheel_items st) \<and>
            threeWheel_sales st' =
              (case s of Some (Array sales) \<Rightarrow> Some (JSON_stringify (Array sales))
                       | _ \<Rightarrow> threeWheel_sales st) \<and>
            threeWheel_currentSale st' = threeWheel_currentSale st)"
    using assms
    by (cases w rule: elements.cases; cases s rule: elements.cases)
       (simp_all add: handleFileImport_object is_list_def saveWheels_def saveSales_def)
  have bad: "handleFileImport confirm (Some Malformed) st = Returned st [import_failed]"
    "handleFileImport confirm (Some Empty) st = Returned st [import_failed]"
    "handleFileImport confirm (Some (Doc BNull)) st
           = Returned st [Confirm q_import, import_failed]"
    using assms by (simp_all add: handleFileImport_def)
  show ?thesis
    using obj bad handleFileImport_returns
    by (simp add: handleFileImport_not_object)
qed

theorem import_replaces_lists_only_witness:
  "threeWheel_items (storage (handleFileImport (\<lambda>q. True) (Some (Doc demo_bad_backup)) demo))
     = Some (Doc (Array [])) \<and>
   threeWheel_sales (storage (handleFileImport (\<lambda>q. True) (Some (Doc demo_bad_backup)) demo))
     = threeWheel_sales demo \<and>
   handleFileImport (\<lambda>q. True) (Some Malformed) demo = Returned demo [import_failed] \<and>
   handleFileImport (\<lambda>q. True) (Some (Doc BNull)) demo
     = Returned demo [Confirm q_import, import_failed]"
  using import_replaces_lists_only [of "\<lambda>q. True" "Some (Array [])"
          "Some (NotArray (String ''none''))" None demo]
  by (simp add: demo_bad_backup_def JSON_stringify_def Let_def)

lemma holds_list_loadWheels:
  "holds_list (threeWheel_items st) wheels \<Longrightarrow> loadWheels st = Inr (Array wheels)"
  by (cases "(threeWheel_items st, wheels)" rule: holds_list.cases)
     (simp_all add: loadWheels_def)

lemma holds_list_loadSales:
  "holds_list (threeWheel_sales st) sales \<Longrightarrow> loadSales st = Inr (Array sales)"
  by (cases "(threeWheel_sales st, sales)" rule: holds_list.cases)
     (simp_all add: loadSales_def)

text \<open>
  C10. The storage holds a list of wheels and a list of sales. \<^verbatim>\<open>exportToJSON\<close> produces the
  file of the object with these two lists, and importing that file into any storage, the
  user agreeing, leaves a storage whose keys \<^verbatim>\<open>threeWheel_items\<close> and \<^verbatim>\<open>threeWheel_sales\<close>
  hold the text of the exported lists, the same records in the same order, and load as
  these lists; the current sale of that storage is not touched.
\<close>

theorem export_import_roundtrip:
  assumes "holds_list (threeWheel_items st) wheels"
    and "holds_list (threeWheel_sales st) sales"
    and "confirm q_import"
  shows "exportToJSON now st
           = Inr (Doc (BObject (Some (Array wheels)) (Some (Array sales)) (Some now))) \<and>
         (\<exists>file. exportToJSON now st = Inr file \<and>
            threeWheel_items (storage (handleFileImport confirm (Some file) st'))
              = Some (Doc (Array wheels)) \<and>
            threeWheel_sales (storage (handleFileImport confirm (Some file) st'))
              = Some (Doc (Array sales)) \<and>
            threeWheel_currentSale (storage (handleFileImport confirm (Some file) st'))
              = threeWheel_currentSale st' \<and>
            loadWheels (storage (handleFileImport confirm (Some file) st')) = Inr (Array wheels) \<and>
            loadSales (storage (handleFileImport confirm (Some file) st')) = Inr (Array sales))"
proof -
  have e: "exportToJSON now st
           = Inr (Doc (BObject (Some (Array wheels)) (Some (Array sales)) (Some now)))"
    using holds_list_loadWheels [OF assms(1)] holds_list_loadSales [OF assms(2)]
    by (simp add: exportToJSON_def JSON_stringify_def)
  have i: "storage (handleFileImport confirm
              (Some (Doc (BObject (Some (Array wheels)) (Some (Array sales)) (Some now)))) st')
            = saveSales sales (saveWheels wheels st')"
    using assms(3) by (simp add: handleFileImport_object is_list_def)
  show ?thesis
    unfolding e
    by (simp add: i loadWheels_saveWheels loadWheels_saveSales loadSales_saveSales)
       (simp add: saveSales_def saveWheels_def JSON_stringify_def)
qed

theorem export_import_roundtrip_witness:
  "(case exportToJSON ''2024-05-06T10:00:00.000Z'' demo of
      Inr file \<Rightarrow>
        threeWheel_items (storage (handleFileImport (\<lambda>q. True) (Some file) no_data))
          = threeWheel_items demo \<and>
        threeWheel_sales (storage (handleFileImport (\<lambda>q. True) (Some file) no_data))
          = threeWheel_sales demo \<and>
        threeWheel_sales (storage (handleFileImport (\<lambda>q. True) (Some file) dangling))
          = threeWheel_sales demo \<and>
        loadWheels (storage (handleFileImport (\<lambda>q. True) (Some file) no_data)) = loadWheels demo \<and>
        loadSales (storage (handleFileImport (\<lambda>q. True) (Some file) dangling)) = loadSales demo
    | Inl e \<Rightarrow> False) \<and>
   (case exportToJSON ''2024-05-06T10:00:00.000Z'' (no_data :: (wheel, sale) localStorage) of
      Inr file \<Rightarrow>
        threeWheel_items (storage (handleFileImport (\<lambda>q. True) (Some file) demo))
          = Some (Doc (Array [])) \<and>
        threeWheel_sales (storage (handleFileImport (\<lambda>q. True) (Some file) demo))
          = Some (Doc (Array []))
    | Inl e \<Rightarrow> False)"
proof -
  obtain ws ss where i: "threeWheel_items demo = Some (Doc (Array ws))"
    and s: "threeWheel_sales demo = Some (Doc (Array ss))"
    by (simp add: demo_def seedDemoData_def saveWheels_def saveSales_def JSON_stringify_def
          Let_def)
  have hw: "holds_list (threeWheel_items demo) ws" and hs: "holds_list (threeWheel_sales demo) ss"
    using i s by simp_all
  have nw: "holds_list (threeWheel_items (no_data :: (wheel, sale) localStorage)) []"
    and ns: "holds_list (threeWheel_sales (no_data :: (wheel, sale) localStorage)) []"
    by (simp_all add: no_data_def)
  from export_import_roundtrip [OF hw hs, of "\<lambda>q. True" "''2024-05-06T10:00:00.000Z''" no_data]
       export_import_roundtrip [OF hw hs, of "\<lambda>q. True" "''2024-05-06T10:00:00.000Z''" dangling]
       export_import_roundtrip [OF nw ns, of "\<lambda>q. True" "''2024-05-06T10:00:00.000Z''" demo]
       i s holds_list_loadWheels [OF hw] holds_list_loadSales [OF hs]
  show ?thesis by auto
qed

end
